theory Spec2Isabelle
  imports Main
begin

section \<open>Data model\<close>

text \<open>
  A row of the table \<^verbatim>\<open>aditi_daily_updates\<close> (the TypeScript type \<^verbatim>\<open>DailyUpdate\<close>).
  Only the columns the dashboards branch on are named; the remaining columns
  (tasks, priority, story points, notes, dates) live in the record's extension slot.

  \<^item> \<^verbatim>\<open>created_at\<close> is an instant; it is kept in milliseconds since the epoch (UTC),
    the precision of a JavaScript \<^verbatim>\<open>Date\<close>.
  \<^item> \<^verbatim>\<open>team_id\<close> and \<^verbatim>\<open>blocker_type\<close> are nullable: \<open>None\<close> is \<^verbatim>\<open>null\<close>.
  \<^item> \<^verbatim>\<open>aditi_teams\<close> is the joined team row (its \<^verbatim>\<open>team_name\<close>), when the query joins it.
  \<^item> \<^verbatim>\<open>team_name\<close> is the property the manager view adds when it cleans fetched rows.
\<close>

record daily_update =
  update_id :: string
  employee_email :: string
  team_id :: "string option"
  created_at :: int
  status :: string
  blocker_type :: "string option"
  aditi_teams :: "string option"
  team_name :: "string option"

text \<open>The signed-in user of \<^verbatim>\<open>useAuth()\<close>: \<^verbatim>\<open>{email, name, role}\<close>.\<close>

record auth_user =
  email :: string
  user_name :: string
  role :: string

text \<open>
  The state \<^verbatim>\<open>dateRange = {start, end}\<close>. The source keeps two \<^verbatim>\<open>YYYY-MM-DD\<close> strings and
  compares them as strings; a calendar date is kept here as its day number (days since
  1970-01-01, UTC), whose order is the order of the zero-padded strings.
\<close>

record date_range =
  start_day :: int
  end_day :: int

datatype toast = ToastSuccess string | ToastError string

text \<open>JavaScript truthiness of a nullable string: \<^verbatim>\<open>null\<close> and \<^verbatim>\<open>''\<close> are falsy.\<close>

fun truthy :: "string option \<Rightarrow> bool" where
  "truthy None = False"
| "truthy (Some s) = (s \<noteq> [])"

section \<open>Edit authorization (user dashboard)\<close>

text \<open>
  \<^verbatim>\<open>isTaskEditable(status)\<close> closes over \<^verbatim>\<open>user\<close>, which may be absent
  (\<^verbatim>\<open>user?.role\<close> is then \<^verbatim>\<open>undefined\<close> and equals no role name).
\<close>

definition hasRole :: "auth_user option \<Rightarrow> string \<Rightarrow> bool" where
  "hasRole usr r = (case usr of None \<Rightarrow> False | Some u \<Rightarrow> role u = r)"

definition isTaskEditable :: "auth_user option \<Rightarrow> string \<Rightarrow> bool" where
  "isTaskEditable usr st =
     (if hasRole usr ''admin'' \<or> hasRole usr ''manager'' then True
      else st = ''to-do'' \<or> st = ''in-progress'')"

text \<open>The edit cell of a collapsed row: the button, or a dash in its place.\<close>

definition listViewEditButton :: "auth_user option \<Rightarrow> daily_update \<Rightarrow> bool" where
  "listViewEditButton usr u =
     ((hasRole usr ''admin'' \<or> hasRole usr ''manager'') \<or> isTaskEditable usr (status u))"

definition listViewDash :: "auth_user option \<Rightarrow> daily_update \<Rightarrow> bool" where
  "listViewDash usr u =
     (\<not> (hasRole usr ''admin'' \<or> hasRole usr ''manager'' \<or> isTaskEditable usr (status u)))"

text \<open>The \<^verbatim>\<open>disabled\<close> attribute both buttons carry.\<close>

definition listViewEditDisabled :: "auth_user option \<Rightarrow> daily_update \<Rightarrow> bool" where
  "listViewEditDisabled usr u =
     (\<not> hasRole usr ''admin'' \<and> \<not> hasRole usr ''manager'' \<and> status u = ''completed'')"

text \<open>The "Actions" entry of an expanded row.\<close>

definition detailViewEditButton :: "auth_user option \<Rightarrow> daily_update \<Rightarrow> bool" where
  "detailViewEditButton usr u =
     ((hasRole usr ''admin'' \<or> hasRole usr ''manager'') \<or> isTaskEditable usr (status u))"

definition detailViewEditDisabled :: "auth_user option \<Rightarrow> daily_update \<Rightarrow> bool" where
  "detailViewEditDisabled usr u =
     (\<not> hasRole usr ''admin'' \<and> \<not> hasRole usr ''manager'' \<and> status u = ''completed'')"

section \<open>The update store as the views see it\<close>

text \<open>
  A Supabase query resolves to \<^verbatim>\<open>{data, error}\<close>: \<open>Failed\<close> is a non-null \<^verbatim>\<open>error\<close>,
  \<open>NoData\<close> is \<^verbatim>\<open>data == null\<close> without an error, \<open>Rows\<close> carries \<^verbatim>\<open>data\<close>.
  What a request meets is a \<open>backend\<close>: out of reach, answering without data, or serving
  a table, of which the query's filters select the matching rows. The order of the rows
  (the user view asks for \<^verbatim>\<open>created_at\<close> descending) is the table's.
\<close>

datatype 'r reply = Failed | NoData | Rows "'r list"

datatype 'r backend = Unreachable | Null_Data | Table "'r list"

fun select :: "('r \<Rightarrow> bool) \<Rightarrow> 'r backend \<Rightarrow> 'r reply" where
  "select q Unreachable = Failed"
| "select q Null_Data = NoData"
| "select q (Table rows) = Rows (filter q rows)"

text \<open>
  The instant a bound such as \<^verbatim>\<open>`${dateRange.end}T23:59:59.999Z`\<close> denotes:
  a UTC calendar day and a time of day, in milliseconds since the epoch.
\<close>

definition instant :: "int \<Rightarrow> int \<Rightarrow> int \<Rightarrow> int \<Rightarrow> int \<Rightarrow> int" where
  "instant day h m s ms = day * 86400000 + h * 3600000 + m * 60000 + s * 1000 + ms"

text \<open>
  The filters of the user view's query in \<^verbatim>\<open>fetchUserUpdates.attemptFetch\<close>:
  \<^verbatim>\<open>.eq('employee_email', user?.email)\<close>,
  \<^verbatim>\<open>.gte('created_at', `${dateRange.start}T00:00:00.000Z`)\<close>,
  \<^verbatim>\<open>.lte('created_at', `${dateRange.end}T23:59:59.999Z`)\<close>.
\<close>

definition userUpdatesQuery :: "string \<Rightarrow> date_range \<Rightarrow> daily_update \<Rightarrow> bool" where
  "userUpdatesQuery mail r u =
     (employee_email u = mail
      \<and> instant (start_day r) 0 0 0 0 \<le> created_at u
      \<and> created_at u \<le> instant (end_day r) 23 59 59 999)"

text \<open>
  The filters of the manager view's query, built the same way in \<^verbatim>\<open>fetchData\<close> and in
  \<^verbatim>\<open>fetchDataSilently\<close>: \<^verbatim>\<open>.gte('created_at', `${dateRange.start}T00:00:00Z`)\<close>,
  \<^verbatim>\<open>.lte('created_at', `${dateRange.end}T23:59:59Z`)\<close>, the team filter when
  \<^verbatim>\<open>teamFilter\<close> is non-empty, and the owner filter for the role \<^verbatim>\<open>user\<close>.
\<close>

definition dashboardUpdatesQuery ::
  "auth_user option \<Rightarrow> date_range \<Rightarrow> string \<Rightarrow> daily_update \<Rightarrow> bool" where
  "dashboardUpdatesQuery usr r teamFilter u =
     (instant (start_day r) 0 0 0 0 \<le> created_at u
      \<and> created_at u \<le> instant (end_day r) 23 59 59 0
      \<and> (if teamFilter \<noteq> [] then team_id u = Some teamFilter else True)
      \<and> (case usr of
           None \<Rightarrow> True
         | Some a \<Rightarrow> if role a = ''user'' then employee_email u = email a else True))"

section \<open>The user dashboard\<close>

record stats_common =
  totalUpdates :: nat
  completedTasks :: nat
  inProgressTasks :: nat

record user_stats = stats_common +
  blockedTasks :: nat

text \<open>
  The React state both pages keep under the same names, with the toasts shown so far
  (the notification surface is a log here). \<open>'s\<close> is the page's \<^verbatim>\<open>stats\<close> object.
\<close>

record 's view_common =
  isLoading :: bool
  dataLoaded :: bool
  dateRange :: date_range
  stats :: 's
  toasts :: "toast list"

record user_view = "user_stats view_common" +
  userUpdates :: "daily_update list"
  filteredUpdates :: "daily_update list"
  lastFetched :: "int option"
  activeFilter :: string

text \<open>\<^verbatim>\<open>calculateStats(updates)\<close> of the user dashboard: the object it hands to \<^verbatim>\<open>setStats\<close>.\<close>

definition calculateStats :: "daily_update list \<Rightarrow> user_stats" where
  "calculateStats updates =
     \<lparr>totalUpdates = length updates,
      completedTasks = length (filter (\<lambda>u. status u = ''completed'') updates),
      inProgressTasks = length (filter (\<lambda>u. status u = ''in-progress'') updates),
      blockedTasks = length (filter (\<lambda>u. status u = ''blocked'') updates)\<rparr>"

text \<open>
  \<^verbatim>\<open>applyFilters()\<close> of the user dashboard. With no fetched updates it empties the
  displayed list and returns before the stats are touched; otherwise the stats are
  recomputed from \<^verbatim>\<open>userUpdates\<close>.
\<close>

definition applyFilters :: "user_view \<Rightarrow> user_view" where
  "applyFilters s =
     (if userUpdates s = [] then s\<lparr>filteredUpdates := []\<rparr>
      else
        let filtered =
          (if activeFilter s = ''completed''
             then filter (\<lambda>u. status u = ''completed'') (userUpdates s)
           else if activeFilter s = ''in-progress''
             then filter (\<lambda>u. status u = ''in-progress'') (userUpdates s)
           else if activeFilter s = ''blocked''
             then filter (\<lambda>u. status u = ''blocked'') (userUpdates s)
           else userUpdates s)
        in s\<lparr>filteredUpdates := filtered, stats := calculateStats (userUpdates s)\<rparr>)"

text \<open>
  \<^verbatim>\<open>filterByCardType(filterType)\<close> of the user dashboard. The call of \<^verbatim>\<open>applyFilters\<close> it
  schedules with \<^verbatim>\<open>setTimeout\<close> runs later, as a step of its own.
\<close>

definition filterByCardType :: "string \<Rightarrow> user_view \<Rightarrow> user_view" where
  "filterByCardType filterType s =
     s\<lparr>activeFilter := filterType,
       toasts := toasts s @
         [ToastSuccess (''Filtered by '' @
            (if filterType = ''all'' then ''all updates'' else filterType) @ '' status'')]\<rparr>"




section \<open>The manager dashboard\<close>

record dash_stats = stats_common +
  totalBlockers :: nat
  stuckTasks :: nat

text \<open>The state \<^verbatim>\<open>activeTab\<close>, a union of six string literals in the source.\<close>

datatype tab = TabAll | TabRecent | TabBlockers | TabCompleted | TabInProgress | TabBlocked

text \<open>A row of \<^verbatim>\<open>aditi_teams\<close>: its \<^verbatim>\<open>id\<close>, its \<^verbatim>\<open>team_name\<close> and its manager's address.\<close>

record team_row =
  team_row_id :: string
  team_row_name :: string
  manager_email :: string

text \<open>
  The state of \<^verbatim>\<open>Dashboard\<close>. \<open>redirectedTo\<close> records a \<^verbatim>\<open>router.replace\<close>.
\<close>

record dashboard = "dash_stats view_common" +
  loadingFailed :: bool
  historicalData :: "daily_update list"
  filteredData :: "daily_update list"
  activeTab :: tab
  selectedTeam :: string
  teams :: "team_row list"
  lastRefreshed :: "int option"
  redirectedTo :: "string option"

text \<open>Routes: the roles \<^verbatim>\<open>ProtectedRoute\<close> lets into each page.\<close>

definition userDashboardAllowedRoles :: "string list" where
  "userDashboardAllowedRoles = [''user'', ''manager'', ''admin'']"


text \<open>
  The manager dashboard renders its two edit buttons (table row, expanded row) with no
  condition and no \<^verbatim>\<open>disabled\<close> attribute.
\<close>

definition dashboardRowEditButton :: "auth_user option \<Rightarrow> daily_update \<Rightarrow> bool" where
  "dashboardRowEditButton usr u = True"

definition dashboardDetailEditButton :: "auth_user option \<Rightarrow> daily_update \<Rightarrow> bool" where
  "dashboardDetailEditButton usr u = True"

text \<open>
  \<^verbatim>\<open>{...item, team_name: item.aditi_teams?.team_name || 'Unknown Team'}\<close>: a missing
  join and an empty name both fall to the default.
\<close>

definition cleanData :: "daily_update \<Rightarrow> daily_update" where
  "cleanData item =
     item\<lparr>team_name :=
       Some (case aditi_teams item of
               None \<Rightarrow> ''Unknown Team''
             | Some n \<Rightarrow> if n = [] then ''Unknown Team'' else n)\<rparr>"

text \<open>
  \<^verbatim>\<open>new Date(update.created_at).toISOString().split('T')[0]\<close>: the UTC calendar day of
  an instant.
\<close>

definition utcDate :: "int \<Rightarrow> int" where
  "utcDate t = t div 86400000"

text \<open>
  \<^verbatim>\<open>sevenDaysAgo\<close>: the clock reading \<open>now\<close> with its day of the month set back by seven
  (seven times 24 hours, no daylight-saving shift in between).
\<close>

definition sevenDaysAgo :: "int \<Rightarrow> int" where
  "sevenDaysAgo now = now - 7 * 86400000"


text \<open>\<^verbatim>\<open>calculateStats(data)\<close> of the manager dashboard.\<close>

definition calculateStats_dashboard :: "daily_update list \<Rightarrow> dash_stats" where
  "calculateStats_dashboard data =
     \<lparr>totalUpdates = length data,
      completedTasks = length (filter (\<lambda>u. status u = ''completed'') data),
      inProgressTasks = length (filter (\<lambda>u. status u = ''in-progress'') data),
      totalBlockers = length (filter (\<lambda>u. truthy (blocker_type u)) data),
      stuckTasks = length (filter (\<lambda>u. status u = ''blocked'') data)\<rparr>"

text \<open>
  \<^verbatim>\<open>forceApplyFilters()\<close>, which \<^verbatim>\<open>applyFilters()\<close> of the manager dashboard calls: the same
  three filters over \<^verbatim>\<open>historicalData\<close>, stored with the stats of the filtered array.
\<close>

definition forceApplyFilters :: "int \<Rightarrow> dashboard \<Rightarrow> dashboard" where
  "forceApplyFilters now s =
     (if historicalData s = []
      then s\<lparr>filteredData := [], stats := calculateStats_dashboard []\<rparr>
      else
        let byDate = filter (\<lambda>u. start_day (dateRange s) \<le> utcDate (created_at u)
                                \<and> utcDate (created_at u) \<le> end_day (dateRange s))
                       (historicalData s);
            byTeam = (if selectedTeam s \<noteq> []
                      then filter (\<lambda>u. team_id u = Some (selectedTeam s)) byDate
                      else byDate);
            filtered =
              (case activeTab s of
                 TabRecent \<Rightarrow> filter (\<lambda>u. sevenDaysAgo now \<le> created_at u) byTeam
               | TabBlockers \<Rightarrow> filter (\<lambda>u. truthy (blocker_type u)) byTeam
               | TabCompleted \<Rightarrow> filter (\<lambda>u. status u = ''completed'') byTeam
               | TabInProgress \<Rightarrow> filter (\<lambda>u. status u = ''in-progress'') byTeam
               | TabBlocked \<Rightarrow> filter (\<lambda>u. status u = ''blocked'') byTeam
               | TabAll \<Rightarrow> byTeam)
        in s\<lparr>filteredData := filtered, stats := calculateStats_dashboard filtered\<rparr>)"

definition applyFilters_dashboard :: "int \<Rightarrow> dashboard \<Rightarrow> dashboard" where
  "applyFilters_dashboard now s = forceApplyFilters now s"

text \<open>
  \<^verbatim>\<open>filterByCardType(filterType)\<close> of the manager dashboard: the team filter is cleared
  first, then the tab is set from the card. The deferred \<^verbatim>\<open>applyFilters\<close> is a later step.
\<close>

definition filterByCardType_dashboard :: "string \<Rightarrow> dashboard \<Rightarrow> dashboard" where
  "filterByCardType_dashboard filterType s =
     (let s1 = (if selectedTeam s \<noteq> [] then s\<lparr>selectedTeam := []\<rparr> else s);
          s2 = (if filterType = ''total'' then s1\<lparr>activeTab := TabAll\<rparr>
                else if filterType = ''completed'' then s1\<lparr>activeTab := TabCompleted\<rparr>
                else if filterType = ''in-progress'' then s1\<lparr>activeTab := TabInProgress\<rparr>
                else if filterType = ''blocked'' then s1\<lparr>activeTab := TabBlocked\<rparr>
                else s1\<lparr>activeTab := TabAll\<rparr>)
      in s2\<lparr>toasts := toasts s2 @
           [ToastSuccess (''Filtered by '' @
              (if filterType = ''total'' then ''all updates'' else filterType) @ '' status'')]\<rparr>)"

subsection \<open>Fetching\<close>


text \<open>
  \<^verbatim>\<open>fetchDataSilently(teamFilter)\<close>: one query, no loading state, no toast; a failure is
  only logged to the console.
\<close>

definition fetchDataSilently ::
  "int \<Rightarrow> daily_update backend \<Rightarrow> auth_user option \<Rightarrow> string \<Rightarrow> dashboard \<Rightarrow> dashboard" where
  "fetchDataSilently now b usr teamFilter s =
     (case select (dashboardUpdatesQuery usr (dateRange s) teamFilter) b of
        Failed \<Rightarrow> s
      | NoData \<Rightarrow> s
      | Rows data \<Rightarrow> s\<lparr>historicalData := map cleanData data, lastRefreshed := Some now\<rparr>)"

subsection \<open>Periodic refresh\<close>

definition refreshInterval :: int where
  "refreshInterval = 5 * 60 * 1000"

definition pollingTick :: int where
  "pollingTick = 30000"

text \<open>\<^verbatim>\<open>isReturningFromTabSwitch()\<close> of \<^verbatim>\<open>tabSwitchUtil.ts\<close> always returns false.\<close>

definition isReturningFromTabSwitch :: bool where
  "isReturningFromTabSwitch = False"

text \<open>The effect installs its interval only under \<^verbatim>\<open>dataLoaded && user\<close>.\<close>

definition periodicRefreshArmed :: "auth_user option \<Rightarrow> dashboard \<Rightarrow> bool" where
  "periodicRefreshArmed usr s = (dataLoaded s \<and> usr \<noteq> None)"

text \<open>
  The interval's callback, run every \<open>pollingTick\<close> milliseconds. \<open>visible\<close> is
  \<^verbatim>\<open>document.visibilityState === 'visible'\<close>, \<open>now\<close> is \<^verbatim>\<open>Date.now()\<close>. It returns
  whether \<^verbatim>\<open>fetchDataSilently(selectedTeam)\<close> is issued, and the new \<^verbatim>\<open>lastRefreshTime\<close>.
\<close>

definition refreshTick :: "bool \<Rightarrow> int \<Rightarrow> int \<Rightarrow> bool \<times> int" where
  "refreshTick visible now lastRefreshTime =
     (if visible then
        if isReturningFromTabSwitch then (False, lastRefreshTime)
        else if refreshInterval \<le> now - lastRefreshTime then (True, now)
        else (False, lastRefreshTime)
      else (False, lastRefreshTime))"

text \<open>
  The instants at which a run of the interval issues a silent fetch: \<open>evs\<close> are the
  callback's invocations in order, each with the visibility and the clock it reads.
\<close>

fun refreshTimes :: "int \<Rightarrow> (bool \<times> int) list \<Rightarrow> int list" where
  "refreshTimes lastRefreshTime [] = []"
| "refreshTimes lastRefreshTime ((visible, now) # evs) =
     (case refreshTick visible now lastRefreshTime of
        (True, l) \<Rightarrow> now # refreshTimes l evs
      | (False, l) \<Rightarrow> refreshTimes l evs)"

subsection \<open>Recovery from local storage\<close>

text \<open>
  \<^verbatim>\<open>localStorage\<close> maps keys to strings. \<^verbatim>\<open>parseInt\<close> (\<open>None\<close> is \<^verbatim>\<open>NaN\<close>) and
  \<^verbatim>\<open>JSON.parse\<close> read as an array of updates (\<open>None\<close> is a thrown \<^verbatim>\<open>SyntaxError\<close>) belong
  to the runtime and are parameters. \<open>showNat\<close> is the decimal numeral a template
  literal prints for a loop counter.
\<close>

function showNat :: "nat \<Rightarrow> string" where
  "showNat n =
     (if n < 10 then [''0123456789'' ! n]
      else showNat (n div 10) @ [''0123456789'' ! (n mod 10)])"
  by pat_completeness auto
termination
  by (relation "measure id") auto

declare showNat.simps [simp del]

definition chunkCountKey :: "string \<Rightarrow> string" where
  "chunkCountKey userEmail = ''dashboard_historicalData_chunkCount_'' @ userEmail"

definition chunkKey :: "nat \<Rightarrow> string \<Rightarrow> string" where
  "chunkKey i userEmail = ''dashboard_historicalData_chunk_'' @ showNat i @ ''_'' @ userEmail"

definition legacyKey :: "string \<Rightarrow> string" where
  "legacyKey userEmail = ''dashboard_historicalData_'' @ userEmail"

text \<open>
  The loop \<^verbatim>\<open>for (let i = 0; i < chunkCount; i++)\<close> over the indices still to visit:
  a missing (or empty) chunk is skipped, a chunk that does not parse throws out of the
  loop (\<open>None\<close>), any other chunk is appended to \<^verbatim>\<open>combinedData\<close>.
\<close>

fun loadChunks ::
  "(string \<Rightarrow> daily_update list option) \<Rightarrow> (string \<rightharpoonup> string) \<Rightarrow> string \<Rightarrow> nat list
   \<Rightarrow> daily_update list \<Rightarrow> daily_update list option" where
  "loadChunks parseJSON ls userEmail [] combinedData = Some combinedData"
| "loadChunks parseJSON ls userEmail (i # rest) combinedData =
     (case ls (chunkKey i userEmail) of
        None \<Rightarrow> loadChunks parseJSON ls userEmail rest combinedData
      | Some chunkData \<Rightarrow>
          if chunkData = [] then loadChunks parseJSON ls userEmail rest combinedData
          else (case parseJSON chunkData of
                  None \<Rightarrow> None
                | Some parsedChunk \<Rightarrow>
                    loadChunks parseJSON ls userEmail rest (combinedData @ parsedChunk)))"

text \<open>The five setters both successful branches of the recovery run.\<close>

definition recovered :: "daily_update list \<Rightarrow> dashboard \<Rightarrow> dashboard" where
  "recovered data s =
     s\<lparr>historicalData := data, filteredData := data,
       stats := calculateStats_dashboard data, dataLoaded := True, loadingFailed := False\<rparr>"

text \<open>
  \<^verbatim>\<open>tryRecoverFromLocalStorage()\<close> from the point where the identity lookup has produced
  \<^verbatim>\<open>userEmail\<close> (\<open>None\<close> when it found none). An absent or empty chunk count leaves
  nothing assembled, as a chunked read that yields no update does. An exception of the
  chunk loop reaches the function's outer \<^verbatim>\<open>catch\<close>, which returns false; the legacy
  entry has a \<^verbatim>\<open>try\<close> of its own. The result is the returned flag and the state.
\<close>

definition tryRecoverFromLocalStorage ::
  "(string \<Rightarrow> int option) \<Rightarrow> (string \<Rightarrow> daily_update list option) \<Rightarrow> (string \<rightharpoonup> string)
   \<Rightarrow> string option \<Rightarrow> dashboard \<Rightarrow> bool \<times> dashboard" where
  "tryRecoverFromLocalStorage parseInt parseJSON ls userEmail s =
     (case userEmail of
        None \<Rightarrow> (False, s)
      | Some mail \<Rightarrow>
          if mail = [] then (False, s)
          else
            (case (case ls (chunkCountKey mail) of
                     None \<Rightarrow> Some []
                   | Some chunkCountStr \<Rightarrow>
                       if chunkCountStr = [] then Some []
                       else loadChunks parseJSON ls mail
                              [0 ..< (case parseInt chunkCountStr of
                                        None \<Rightarrow> 0
                                      | Some chunkCount \<Rightarrow> nat chunkCount)] []) of
               None \<Rightarrow> (False, s)
             | Some combinedData \<Rightarrow>
                 if combinedData \<noteq> [] then (True, recovered combinedData s)
                 else
                   (case ls (legacyKey mail) of
                      None \<Rightarrow> (False, s)
                    | Some oldDataStr \<Rightarrow>
                        if oldDataStr = [] then (False, s)
                        else (case parseJSON oldDataStr of
                                None \<Rightarrow> (False, s)
                              | Some parsedData \<Rightarrow> (True, recovered parsedData s)))))"

section \<open>Reference notions and sample data\<close>


text \<open>
  What the recovery finds in storage, read off the keys it consults: the chunk count
  that bounds the loop (absent when the entry is missing or empty), whether chunk \<open>i\<close>
  can be read without an exception, what it contributes, and the legacy entry's array.
\<close>

definition storedChunkCount ::
  "(string \<Rightarrow> int option) \<Rightarrow> (string \<rightharpoonup> string) \<Rightarrow> string \<Rightarrow> nat option" where
  "storedChunkCount parseInt ls userEmail =
     (case ls (chunkCountKey userEmail) of
        None \<Rightarrow> None
      | Some chunkCountStr \<Rightarrow>
          if chunkCountStr = [] then None
          else Some (case parseInt chunkCountStr of None \<Rightarrow> 0 | Some c \<Rightarrow> nat c))"

definition chunkParses ::
  "(string \<Rightarrow> daily_update list option) \<Rightarrow> (string \<rightharpoonup> string) \<Rightarrow> string \<Rightarrow> nat \<Rightarrow> bool" where
  "chunkParses parseJSON ls userEmail i =
     (case ls (chunkKey i userEmail) of
        None \<Rightarrow> True
      | Some chunkData \<Rightarrow> chunkData = [] \<or> parseJSON chunkData \<noteq> None)"

definition chunkContents ::
  "(string \<Rightarrow> daily_update list option) \<Rightarrow> (string \<rightharpoonup> string) \<Rightarrow> string \<Rightarrow> nat
   \<Rightarrow> daily_update list" where
  "chunkContents parseJSON ls userEmail i =
     (case ls (chunkKey i userEmail) of
        None \<Rightarrow> []
      | Some chunkData \<Rightarrow>
          if chunkData = [] then []
          else (case parseJSON chunkData of None \<Rightarrow> [] | Some parsedChunk \<Rightarrow> parsedChunk))"

definition legacyData ::
  "(string \<Rightarrow> daily_update list option) \<Rightarrow> (string \<rightharpoonup> string) \<Rightarrow> string
   \<Rightarrow> daily_update list option" where
  "legacyData parseJSON ls userEmail =
     (case ls (legacyKey userEmail) of
        None \<Rightarrow> None
      | Some oldDataStr \<Rightarrow> if oldDataStr = [] then None else parseJSON oldDataStr)"

text \<open>
  The initial React state of the two pages (the arguments of their \<^verbatim>\<open>useState\<close> calls);
  \<open>today\<close> is the day number of the first render.
\<close>

definition initialUserView :: "int \<Rightarrow> user_view" where
  "initialUserView today =
     \<lparr>isLoading = True, dataLoaded = False,
      dateRange = \<lparr>start_day = today - 30, end_day = today\<rparr>,
      stats = \<lparr>totalUpdates = 0, completedTasks = 0, inProgressTasks = 0, blockedTasks = 0\<rparr>,
      toasts = [],
      userUpdates = [], filteredUpdates = [], lastFetched = None, activeFilter = ''all''\<rparr>"

definition initialDashboard :: "int \<Rightarrow> dashboard" where
  "initialDashboard today =
     \<lparr>isLoading = False, dataLoaded = False,
      dateRange = \<lparr>start_day = today - 7, end_day = today\<rparr>,
      stats = \<lparr>totalUpdates = 0, completedTasks = 0, inProgressTasks = 0,
               totalBlockers = 0, stuckTasks = 0\<rparr>,
      toasts = [],
      loadingFailed = False, historicalData = [], filteredData = [], activeTab = TabAll,
      selectedTeam = [], teams = [], lastRefreshed = None, redirectedTo = None\<rparr>"

text \<open>Concrete inputs for the examples below.\<close>

definition alice :: auth_user where
  "alice = \<lparr>email = ''alice@aditi.example'', user_name = ''Alice'', role = ''user''\<rparr>"

definition morgan :: auth_user where
  "morgan = \<lparr>email = ''morgan@aditi.example'', user_name = ''Morgan'', role = ''manager''\<rparr>"

definition aliceUpdate :: "string \<Rightarrow> int \<Rightarrow> string \<Rightarrow> daily_update" where
  "aliceUpdate ident t st =
     \<lparr>update_id = ident, employee_email = ''alice@aditi.example'', team_id = Some ''team-1'',
      created_at = t, status = st, blocker_type = None, aditi_teams = Some ''Platform'',
      team_name = None\<rparr>"




definition threeStatusView :: user_view where
  "threeStatusView =
     (initialUserView 20000)
       \<lparr>isLoading := False, dataLoaded := True, activeFilter := ''blocked'',
        userUpdates := [aliceUpdate ''u1'' (instant 19999 9 0 0 0) ''completed'',
                        aliceUpdate ''u2'' (instant 19999 10 0 0 0) ''in-progress'',
                        aliceUpdate ''u3'' (instant 19999 11 0 0 0) ''blocked'']\<rparr>"

text \<open>A manager dashboard showing one update.\<close>

definition loadedDashboard :: dashboard where
  "loadedDashboard =
     (initialDashboard 20000)
       \<lparr>dataLoaded := True, selectedTeam := ''team-1'',
        historicalData := [aliceUpdate ''u1'' (instant 19999 9 30 0 0) ''in-progress''],
        filteredData := [aliceUpdate ''u1'' (instant 19999 9 30 0 0) ''in-progress'']\<rparr>"

text \<open>
  A runtime that reads the numerals \<^verbatim>\<open>1\<close> and \<^verbatim>\<open>2\<close> and three serialized arrays, and
  three storages for \<^verbatim>\<open>alice@aditi.example\<close>: one with two good chunks and a legacy
  entry, one with the legacy entry only, and one whose only chunk is cut short.
\<close>

definition sampleParseInt :: "string \<Rightarrow> int option" where
  "sampleParseInt s = (if s = ''1'' then Some 1 else if s = ''2'' then Some 2 else None)"

definition sampleParseJSON :: "string \<Rightarrow> daily_update list option" where
  "sampleParseJSON s =
     (if s = ''[u1]'' then Some [aliceUpdate ''u1'' (instant 19999 9 0 0 0) ''completed'']
      else if s = ''[u2]'' then Some [aliceUpdate ''u2'' (instant 19999 10 0 0 0) ''blocked'']
      else if s = ''[u0]'' then Some [aliceUpdate ''u0'' (instant 19990 8 0 0 0) ''to-do'']
      else None)"

definition chunkedStorage :: "string \<rightharpoonup> string" where
  "chunkedStorage =
     [''dashboard_historicalData_chunkCount_alice@aditi.example'' \<mapsto> ''2'',
      ''dashboard_historicalData_chunk_0_alice@aditi.example'' \<mapsto> ''[u1]'',
      ''dashboard_historicalData_chunk_1_alice@aditi.example'' \<mapsto> ''[u2]'',
      ''dashboard_historicalData_alice@aditi.example'' \<mapsto> ''[u0]'']"

definition legacyOnlyStorage :: "string \<rightharpoonup> string" where
  "legacyOnlyStorage = [''dashboard_historicalData_alice@aditi.example'' \<mapsto> ''[u0]'']"

definition corruptStorage :: "string \<rightharpoonup> string" where
  "corruptStorage =
     [''dashboard_historicalData_chunkCount_alice@aditi.example'' \<mapsto> ''1'',
      ''dashboard_historicalData_chunk_0_alice@aditi.example'' \<mapsto> ''[u1'',
      ''dashboard_historicalData_alice@aditi.example'' \<mapsto> ''[u0]'']"

section \<open>Properties\<close>


subsection \<open>Edit authorization\<close>



subsection \<open>Edit affordance parity\<close>

text \<open>
  Claim C6. In the user dashboard, for every acting user (also an absent one) and every
  update, the collapsed row and the expanded detail view agree on the edit control: the
  button is rendered at both sites or at neither, the list view shows its dash exactly
  when the button is missing, both buttons carry the same \<^verbatim>\<open>disabled\<close> value, and the
  condition at both sites is the single predicate \<^verbatim>\<open>isTaskEditable\<close>. The two sites of
  the manager dashboard agree as well.
\<close>

theorem edit_affordance_parity:
  "listViewEditButton usr u = detailViewEditButton usr u
   \<and> listViewDash usr u = (\<not> detailViewEditButton usr u)
   \<and> listViewEditDisabled usr u = detailViewEditDisabled usr u
   \<and> listViewEditButton usr u = isTaskEditable usr (status u)
   \<and> detailViewEditButton usr u = isTaskEditable usr (status u)
   \<and> dashboardRowEditButton usr u = dashboardDetailEditButton usr u"
  by (auto simp add: listViewEditButton_def detailViewEditButton_def listViewDash_def
      listViewEditDisabled_def detailViewEditDisabled_def isTaskEditable_def
      dashboardRowEditButton_def dashboardDetailEditButton_def)

text \<open>
  A regular user sees no edit control on a completed update of theirs and one on a
  to-do update; a manager sees it on both, at both sites.
\<close>

theorem edit_affordance_parity_example:
  "\<not> listViewEditButton (Some alice) (aliceUpdate ''u1'' (instant 19999 9 0 0 0) ''completed'')
   \<and> \<not> detailViewEditButton (Some alice) (aliceUpdate ''u1'' (instant 19999 9 0 0 0) ''completed'')
   \<and> listViewDash (Some alice) (aliceUpdate ''u1'' (instant 19999 9 0 0 0) ''completed'')
   \<and> listViewEditButton (Some alice) (aliceUpdate ''u2'' (instant 19999 9 0 0 0) ''to-do'')
   \<and> detailViewEditButton (Some alice) (aliceUpdate ''u2'' (instant 19999 9 0 0 0) ''to-do'')
   \<and> listViewEditButton (Some morgan) (aliceUpdate ''u1'' (instant 19999 9 0 0 0) ''completed'')
   \<and> detailViewEditButton (Some morgan) (aliceUpdate ''u1'' (instant 19999 9 0 0 0) ''completed'')"
  using edit_affordance_parity [of "Some alice" "aliceUpdate ''u1'' (instant 19999 9 0 0 0) ''completed''"]
    edit_affordance_parity [of "Some alice" "aliceUpdate ''u2'' (instant 19999 9 0 0 0) ''to-do''"]
    edit_affordance_parity [of "Some morgan" "aliceUpdate ''u1'' (instant 19999 9 0 0 0) ''completed''"]
  by (simp add: isTaskEditable_def hasRole_def alice_def morgan_def aliceUpdate_def)

subsection \<open>Date range of the fetch\<close>

text \<open>
  The user view's query covers whole days, from the first millisecond of the start day
  to the last millisecond of the end day. The manager view's query returns nothing
  created after 23:59:59.000 of the end day.
\<close>

lemma userUpdatesQuery_whole_days:
  "userUpdatesQuery mail r u \<longleftrightarrow>
     employee_email u = mail
     \<and> start_day r * 86400000 \<le> created_at u \<and> created_at u < (end_day r + 1) * 86400000"
  by (auto simp add: userUpdatesQuery_def instant_def)

lemma dashboardUpdatesQuery_last_second:
  "end_day r * 86400000 + 86399000 < created_at u \<Longrightarrow>
   \<not> dashboardUpdatesQuery usr r teamFilter u"
  by (simp add: dashboardUpdatesQuery_def instant_def)

text \<open>
  Claim C3, at the input where the manager view departs from it. With a range ending on
  day 20000, the user view's query keeps an update created at 23:59:59.999 of that day
  and drops one created a millisecond later; the manager view's query, whose upper bound
  is written \<^verbatim>\<open>T23:59:59Z\<close>, does not return the update created at 23:59:59.999, although it
  falls on the last day of the range.
\<close>

theorem manager_query_drops_last_second:
  "userUpdatesQuery ''alice@aditi.example'' \<lparr>start_day = 19990, end_day = 20000\<rparr>
     (aliceUpdate ''u9'' (instant 20000 23 59 59 999) ''to-do'')
   \<and> \<not> userUpdatesQuery ''alice@aditi.example'' \<lparr>start_day = 19990, end_day = 20000\<rparr>
     (aliceUpdate ''u9'' (instant 20000 23 59 59 999 + 1) ''to-do'')
   \<and> \<not> dashboardUpdatesQuery (Some morgan) \<lparr>start_day = 19990, end_day = 20000\<rparr> []
     (aliceUpdate ''u9'' (instant 20000 23 59 59 999) ''to-do'')
   \<and> select (dashboardUpdatesQuery (Some morgan) \<lparr>start_day = 19990, end_day = 20000\<rparr> [])
        (Table [aliceUpdate ''u9'' (instant 20000 23 59 59 999) ''to-do'']) = Rows []
   \<and> utcDate (instant 20000 23 59 59 999) = 20000"
  by (simp add: userUpdatesQuery_def dashboardUpdatesQuery_def aliceUpdate_def instant_def
      morgan_def utcDate_def)

subsection \<open>Stats\<close>

lemma status_counts_le:
  "length (filter (\<lambda>u. status u = ''completed'') xs)
   + length (filter (\<lambda>u. status u = ''in-progress'') xs)
   + length (filter (\<lambda>u. status u = ''blocked'') xs) \<le> length xs"
  by (induction xs) auto

text \<open>
  Claim C2, as the code has it. The manager view computes its stats over the filtered
  set it has just stored, so the total is the length of the displayed list. The user
  view computes them over all fetched updates whenever there are any, whatever the active
  filter, and leaves them as they were when there are none. In both views the completed,
  in-progress and blocked counts add up to at most the total.
\<close>

theorem stats_scope:
  "stats (forceApplyFilters now d) = calculateStats_dashboard (filteredData (forceApplyFilters now d))
   \<and> totalUpdates (stats (forceApplyFilters now d)) = length (filteredData (forceApplyFilters now d))
   \<and> (userUpdates s \<noteq> [] \<longrightarrow>
        stats (applyFilters s) = calculateStats (userUpdates s)
        \<and> totalUpdates (stats (applyFilters s)) = length (userUpdates s))
   \<and> (userUpdates s = [] \<longrightarrow> stats (applyFilters s) = stats s)
   \<and> completedTasks (calculateStats xs) + inProgressTasks (calculateStats xs)
        + blockedTasks (calculateStats xs) \<le> totalUpdates (calculateStats xs)
   \<and> completedTasks (calculateStats_dashboard xs) + inProgressTasks (calculateStats_dashboard xs)
        + stuckTasks (calculateStats_dashboard xs) \<le> totalUpdates (calculateStats_dashboard xs)"
proof -
  have "stats (forceApplyFilters now d)
      = calculateStats_dashboard (filteredData (forceApplyFilters now d))"
    by (simp add: forceApplyFilters_def Let_def)
  moreover have "totalUpdates (calculateStats_dashboard ys) = length ys" for ys
    by (simp add: calculateStats_dashboard_def)
  moreover have "userUpdates s \<noteq> [] \<Longrightarrow> stats (applyFilters s) = calculateStats (userUpdates s)"
    by (simp add: applyFilters_def Let_def)
  moreover have "totalUpdates (calculateStats ys) = length ys" for ys
    by (simp add: calculateStats_def)
  moreover have "userUpdates s = [] \<Longrightarrow> stats (applyFilters s) = stats s"
    by (simp add: applyFilters_def)
  moreover have "completedTasks (calculateStats xs) + inProgressTasks (calculateStats xs)
        + blockedTasks (calculateStats xs) \<le> totalUpdates (calculateStats xs)"
    using status_counts_le [of xs] by (simp add: calculateStats_def)
  moreover have "completedTasks (calculateStats_dashboard xs)
        + inProgressTasks (calculateStats_dashboard xs)
        + stuckTasks (calculateStats_dashboard xs) \<le> totalUpdates (calculateStats_dashboard xs)"
    using status_counts_le [of xs] by (simp add: calculateStats_dashboard_def)
  ultimately show ?thesis by simp
qed

theorem stats_scope_witness:
  "userUpdates threeStatusView \<noteq> []
   \<and> stats (applyFilters threeStatusView) = calculateStats (userUpdates threeStatusView)
   \<and> totalUpdates (stats (applyFilters threeStatusView)) = 3
   \<and> userUpdates (initialUserView 20000) = []
   \<and> stats (applyFilters (initialUserView 20000)) = stats (initialUserView 20000)"
proof -
  have full: "userUpdates threeStatusView \<noteq> []" and n: "length (userUpdates threeStatusView) = 3"
    by (simp_all add: threeStatusView_def)
  have none: "userUpdates (initialUserView 20000) = []"
    by (simp add: initialUserView_def)
  from stats_scope [of 0 loadedDashboard threeStatusView "[]"] full
  have "stats (applyFilters threeStatusView) = calculateStats (userUpdates threeStatusView)"
    and "totalUpdates (stats (applyFilters threeStatusView)) = length (userUpdates threeStatusView)"
    by blast+
  moreover from stats_scope [of 0 loadedDashboard "initialUserView 20000" "[]"] none
  have "stats (applyFilters (initialUserView 20000)) = stats (initialUserView 20000)"
    by blast
  ultimately show ?thesis using full n none by simp
qed

text \<open>
  In the user view under the tab \<^verbatim>\<open>blocked\<close>, one of three updates is displayed while the
  stats still count all three: the total is not the length of the filtered set.
\<close>

theorem user_stats_cover_full_set:
  "activeFilter threeStatusView = ''blocked''
   \<and> map update_id (filteredUpdates (applyFilters threeStatusView)) = [''u3'']
   \<and> totalUpdates (stats (applyFilters threeStatusView)) = 3
   \<and> completedTasks (stats (applyFilters threeStatusView)) = 1
   \<and> inProgressTasks (stats (applyFilters threeStatusView)) = 1
   \<and> blockedTasks (stats (applyFilters threeStatusView)) = 1"
  by (simp add: threeStatusView_def initialUserView_def applyFilters_def Let_def
      calculateStats_def aliceUpdate_def)

subsection \<open>Filter engine\<close>






subsection \<open>Stats cards of the manager dashboard\<close>

text \<open>
  Claim C10. Clicking a stats card in the manager dashboard leaves the team filter empty
  whatever it was, sets the tab that belongs to the card (\<^verbatim>\<open>all\<close> for the total card and
  for any unknown card), and changes nothing else but the toast log: the date range and
  the fetched and displayed sets stay as they were.
\<close>

theorem card_click_clears_team:
  "selectedTeam (filterByCardType_dashboard filterType s) = []
   \<and> activeTab (filterByCardType_dashboard filterType s) =
       (if filterType = ''completed'' then TabCompleted
        else if filterType = ''in-progress'' then TabInProgress
        else if filterType = ''blocked'' then TabBlocked
        else TabAll)
   \<and> dateRange (filterByCardType_dashboard filterType s) = dateRange s
   \<and> historicalData (filterByCardType_dashboard filterType s) = historicalData s
   \<and> filteredData (filterByCardType_dashboard filterType s) = filteredData s
   \<and> filterByCardType_dashboard filterType s =
       s\<lparr>selectedTeam := [],
         activeTab := activeTab (filterByCardType_dashboard filterType s),
         toasts := toasts (filterByCardType_dashboard filterType s)\<rparr>"
  by (simp add: filterByCardType_dashboard_def Let_def)

text \<open>With team \<^verbatim>\<open>team-1\<close> selected, the card \<^verbatim>\<open>blocked\<close> clears the selection.\<close>

theorem card_click_example:
  "selectedTeam loadedDashboard = ''team-1''
   \<and> selectedTeam (filterByCardType_dashboard ''blocked'' loadedDashboard) = []
   \<and> activeTab (filterByCardType_dashboard ''blocked'' loadedDashboard) = TabBlocked"
  using card_click_clears_team [of "''blocked''" loadedDashboard]
  by (simp add: loadedDashboard_def initialDashboard_def)

subsection \<open>Periodic silent refresh\<close>

lemma refreshTimes_spaced:
  "successively (\<lambda>a b. a + refreshInterval \<le> b) (t0 # refreshTimes t0 evs)"
proof (induction evs arbitrary: t0)
  case Nil
  show ?case by simp
next
  case (Cons ev evs)
  obtain visible now where ev: "ev = (visible, now)" by (cases ev)
  show ?case
  proof (cases "fst (refreshTick visible now t0)")
    case True
    then have t: "refreshTick visible now t0 = (True, now)" and g: "t0 + refreshInterval \<le> now"
      by (auto simp add: refreshTick_def split: if_splits)
    from Cons.IH [of now] t g show ?thesis by (simp add: ev)
  next
    case False
    then have t: "refreshTick visible now t0 = (False, t0)"
      by (auto simp add: refreshTick_def split: if_splits)
    from Cons.IH [of t0] t show ?thesis by (simp add: ev)
  qed
qed

text \<open>
  Claim C8. The interval is installed only when data has been loaded and a user is
  present; it polls every 30 seconds against a refresh interval of five minutes. A tick
  issues the silent fetch exactly when the document is visible and at least the full
  interval has passed since \<^verbatim>\<open>lastRefreshTime\<close>, which it then sets to the clock; hence any
  two fetches it issues are at least five minutes apart, and the first at least five
  minutes after the interval was installed. The silent fetch never touches the loading
  flag, the toasts or the displayed list; on a failure (or a reply without data) the
  state is unchanged, and on success the fetched set is replaced by the cleaned rows.
\<close>

theorem silent_refresh:
  "refreshInterval = 300000 \<and> 0 < pollingTick \<and> pollingTick < refreshInterval
   \<and> periodicRefreshArmed usr s = (dataLoaded s \<and> usr \<noteq> None)
   \<and> refreshTick visible now t0 =
       (if visible \<and> refreshInterval \<le> now - t0 then (True, now) else (False, t0))
   \<and> successively (\<lambda>a b. a + refreshInterval \<le> b) (t0 # refreshTimes t0 evs)
   \<and> isLoading (fetchDataSilently now b usr teamFilter s) = isLoading s
   \<and> toasts (fetchDataSilently now b usr teamFilter s) = toasts s
   \<and> filteredData (fetchDataSilently now b usr teamFilter s) = filteredData s
   \<and> fetchDataSilently now Unreachable usr teamFilter s = s
   \<and> fetchDataSilently now Null_Data usr teamFilter s = s
   \<and> fetchDataSilently now (Table rows) usr teamFilter s =
        s\<lparr>historicalData :=
             map cleanData (filter (dashboardUpdatesQuery usr (dateRange s) teamFilter) rows),
          lastRefreshed := Some now\<rparr>"
proof (intro conjI)
  show "refreshInterval = 300000" "0 < pollingTick" "pollingTick < refreshInterval"
    by (simp_all add: refreshInterval_def pollingTick_def)
  show "periodicRefreshArmed usr s = (dataLoaded s \<and> usr \<noteq> None)"
    by (simp add: periodicRefreshArmed_def)
  show "refreshTick visible now t0 =
       (if visible \<and> refreshInterval \<le> now - t0 then (True, now) else (False, t0))"
    by (simp add: refreshTick_def isReturningFromTabSwitch_def)
  show "successively (\<lambda>a b. a + refreshInterval \<le> b) (t0 # refreshTimes t0 evs)"
    by (rule refreshTimes_spaced)
  show "isLoading (fetchDataSilently now b usr teamFilter s) = isLoading s"
    "toasts (fetchDataSilently now b usr teamFilter s) = toasts s"
    "filteredData (fetchDataSilently now b usr teamFilter s) = filteredData s"
    by (cases b; simp add: fetchDataSilently_def)+
  show "fetchDataSilently now Unreachable usr teamFilter s = s"
    "fetchDataSilently now Null_Data usr teamFilter s = s"
    "fetchDataSilently now (Table rows) usr teamFilter s =
        s\<lparr>historicalData :=
             map cleanData (filter (dashboardUpdatesQuery usr (dateRange s) teamFilter) rows),
          lastRefreshed := Some now\<rparr>"
    by (simp_all add: fetchDataSilently_def)
qed

text \<open>
  Ticks at 30 s and 270 s are too early, the tick at 300 s finds the page hidden, the
  ticks at 330 s and 630 s fetch, the tick at 360 s does not.
\<close>

theorem silent_refresh_example:
  "refreshTimes 0 [(True, 30000), (True, 270000), (False, 300000), (True, 330000),
                   (True, 360000), (True, 630000)] = [330000, 630000]
   \<and> historicalData (fetchDataSilently 330000 Unreachable (Some morgan) ''team-1'' loadedDashboard)
       = historicalData loadedDashboard"
  using silent_refresh [of "Some morgan" loadedDashboard True 330000 0 "[]" Unreachable "''team-1''" "[]"]
  by (simp add: refreshTick_def refreshInterval_def isReturningFromTabSwitch_def)

subsection \<open>Retry with backoff (user dashboard)\<close>










subsection \<open>Exhausted retries\<close>











subsection \<open>Recovery from local storage\<close>

lemma showNat_digit: "n < 10 \<Longrightarrow> showNat n = [''0123456789'' ! n]"
  by (subst showNat.simps) simp

lemma loadChunks_concat:
  "list_all (chunkParses parseJSON ls mail) idx \<Longrightarrow>
   loadChunks parseJSON ls mail idx acc
     = Some (acc @ concat (map (chunkContents parseJSON ls mail) idx))"
  by (induction idx arbitrary: acc)
     (auto simp add: chunkParses_def chunkContents_def split: option.splits)

lemma loadChunks_throws:
  "\<not> list_all (chunkParses parseJSON ls mail) idx \<Longrightarrow>
   loadChunks parseJSON ls mail idx acc = None"
  by (induction idx arbitrary: acc)
     (auto simp add: chunkParses_def split: option.splits)

lemma recover_chunked:
  assumes "mail \<noteq> []" "storedChunkCount parseInt ls mail = Some n"
    "list_all (chunkParses parseJSON ls mail) [0..<n]"
    "concat (map (chunkContents parseJSON ls mail) [0..<n]) \<noteq> []"
  shows "tryRecoverFromLocalStorage parseInt parseJSON ls (Some mail) s
     = (True, recovered (concat (map (chunkContents parseJSON ls mail) [0..<n])) s)"
  using assms
  by (auto simp add: tryRecoverFromLocalStorage_def storedChunkCount_def loadChunks_concat
      split: option.splits if_splits)

lemma recover_corrupt:
  assumes "mail \<noteq> []" "storedChunkCount parseInt ls mail = Some n"
    "\<not> list_all (chunkParses parseJSON ls mail) [0..<n]"
  shows "tryRecoverFromLocalStorage parseInt parseJSON ls (Some mail) s = (False, s)"
  using assms
  by (auto simp add: tryRecoverFromLocalStorage_def storedChunkCount_def loadChunks_throws
      split: option.splits if_splits)

lemma recover_legacy:
  assumes "mail \<noteq> []"
    "storedChunkCount parseInt ls mail = None \<or>
     (storedChunkCount parseInt ls mail = Some n
        \<and> list_all (chunkParses parseJSON ls mail) [0..<n]
        \<and> concat (map (chunkContents parseJSON ls mail) [0..<n]) = [])"
  shows "tryRecoverFromLocalStorage parseInt parseJSON ls (Some mail) s
     = (case legacyData parseJSON ls mail of
          None \<Rightarrow> (False, s)
        | Some parsedData \<Rightarrow> (True, recovered parsedData s))"
  using assms
  by (auto simp add: tryRecoverFromLocalStorage_def storedChunkCount_def legacyData_def
      loadChunks_concat split: option.splits if_splits)

text \<open>
  Claim C9, as the code has it. The chunk loop concatenates the readable chunks in index
  order. With a chunk count in storage, chunks that all parse and a non-empty
  concatenation, the recovered set is that concatenation, whatever the legacy entry
  holds. With no chunk count, or chunks that parse to nothing, the outcome is the
  legacy entry's: its array when it is present and parses, failure otherwise. With a
  chunk count and a chunk that does not parse, the recovery fails and the state is
  untouched, whether or not a legacy entry exists.
\<close>

theorem recovery_assembly:
  "(list_all (chunkParses parseJSON ls mail) idx \<longrightarrow>
      loadChunks parseJSON ls mail idx []
        = Some (concat (map (chunkContents parseJSON ls mail) idx)))
   \<and> (mail \<noteq> [] \<and> storedChunkCount parseInt ls mail = Some n
        \<and> list_all (chunkParses parseJSON ls mail) [0..<n]
        \<and> concat (map (chunkContents parseJSON ls mail) [0..<n]) \<noteq> [] \<longrightarrow>
      tryRecoverFromLocalStorage parseInt parseJSON ls (Some mail) s
        = (True, recovered (concat (map (chunkContents parseJSON ls mail) [0..<n])) s))
   \<and> (mail \<noteq> []
        \<and> (storedChunkCount parseInt ls mail = None
            \<or> (storedChunkCount parseInt ls mail = Some n
                \<and> list_all (chunkParses parseJSON ls mail) [0..<n]
                \<and> concat (map (chunkContents parseJSON ls mail) [0..<n]) = [])) \<longrightarrow>
      tryRecoverFromLocalStorage parseInt parseJSON ls (Some mail) s
        = (case legacyData parseJSON ls mail of
             None \<Rightarrow> (False, s)
           | Some parsedData \<Rightarrow> (True, recovered parsedData s)))
   \<and> (mail \<noteq> [] \<and> storedChunkCount parseInt ls mail = Some n
        \<and> \<not> list_all (chunkParses parseJSON ls mail) [0..<n] \<longrightarrow>
      tryRecoverFromLocalStorage parseInt parseJSON ls (Some mail) s = (False, s))
   \<and> historicalData (recovered data s) = data \<and> filteredData (recovered data s) = data"
proof (intro conjI impI)
  assume "list_all (chunkParses parseJSON ls mail) idx"
  then show "loadChunks parseJSON ls mail idx []
        = Some (concat (map (chunkContents parseJSON ls mail) idx))"
    by (simp add: loadChunks_concat)
next
  assume "mail \<noteq> [] \<and> storedChunkCount parseInt ls mail = Some n
        \<and> list_all (chunkParses parseJSON ls mail) [0..<n]
        \<and> concat (map (chunkContents parseJSON ls mail) [0..<n]) \<noteq> []"
  then show "tryRecoverFromLocalStorage parseInt parseJSON ls (Some mail) s
        = (True, recovered (concat (map (chunkContents parseJSON ls mail) [0..<n])) s)"
    by (simp add: recover_chunked)
next
  assume "mail \<noteq> []
        \<and> (storedChunkCount parseInt ls mail = None
            \<or> (storedChunkCount parseInt ls mail = Some n
                \<and> list_all (chunkParses parseJSON ls mail) [0..<n]
                \<and> concat (map (chunkContents parseJSON ls mail) [0..<n]) = []))"
  then show "tryRecoverFromLocalStorage parseInt parseJSON ls (Some mail) s
        = (case legacyData parseJSON ls mail of
             None \<Rightarrow> (False, s)
           | Some parsedData \<Rightarrow> (True, recovered parsedData s))"
    using recover_legacy [of mail parseInt ls n parseJSON s] by blast
next
  assume "mail \<noteq> [] \<and> storedChunkCount parseInt ls mail = Some n
        \<and> \<not> list_all (chunkParses parseJSON ls mail) [0..<n]"
  then show "tryRecoverFromLocalStorage parseInt parseJSON ls (Some mail) s = (False, s)"
    using recover_corrupt [of mail parseInt ls n parseJSON s] by blast
next
  show "historicalData (recovered data s) = data" "filteredData (recovered data s) = data"
    by (simp_all add: recovered_def)
qed

lemma chunked_facts:
  "storedChunkCount sampleParseInt chunkedStorage ''alice@aditi.example'' = Some 2"
  "chunkContents sampleParseJSON chunkedStorage ''alice@aditi.example'' 0
     = [aliceUpdate ''u1'' (instant 19999 9 0 0 0) ''completed'']"
  "chunkContents sampleParseJSON chunkedStorage ''alice@aditi.example'' (Suc 0)
     = [aliceUpdate ''u2'' (instant 19999 10 0 0 0) ''blocked'']"
  "chunkParses sampleParseJSON chunkedStorage ''alice@aditi.example'' 0"
  "chunkParses sampleParseJSON chunkedStorage ''alice@aditi.example'' (Suc 0)"
  "legacyData sampleParseJSON chunkedStorage ''alice@aditi.example''
     = Some [aliceUpdate ''u0'' (instant 19990 8 0 0 0) ''to-do'']"
  by (simp_all add: storedChunkCount_def chunkContents_def chunkParses_def legacyData_def
      chunkedStorage_def sampleParseInt_def sampleParseJSON_def chunkCountKey_def chunkKey_def
      legacyKey_def showNat_digit)

lemma corrupt_facts:
  "storedChunkCount sampleParseInt corruptStorage ''alice@aditi.example'' = Some 1"
  "\<not> chunkParses sampleParseJSON corruptStorage ''alice@aditi.example'' 0"
  "legacyData sampleParseJSON corruptStorage ''alice@aditi.example''
     = Some [aliceUpdate ''u0'' (instant 19990 8 0 0 0) ''to-do'']"
  by (simp_all add: storedChunkCount_def chunkParses_def legacyData_def
      corruptStorage_def sampleParseInt_def sampleParseJSON_def chunkCountKey_def chunkKey_def
      legacyKey_def showNat_digit)

lemma legacy_facts:
  "storedChunkCount sampleParseInt legacyOnlyStorage ''alice@aditi.example'' = None"
  "legacyData sampleParseJSON legacyOnlyStorage ''alice@aditi.example''
     = Some [aliceUpdate ''u0'' (instant 19990 8 0 0 0) ''to-do'']"
  by (simp_all add: storedChunkCount_def legacyData_def
      legacyOnlyStorage_def sampleParseJSON_def chunkCountKey_def legacyKey_def)

theorem recovery_assembly_witness:
  "storedChunkCount sampleParseInt chunkedStorage ''alice@aditi.example'' = Some 2
   \<and> list_all (chunkParses sampleParseJSON chunkedStorage ''alice@aditi.example'') [0..<2]
   \<and> legacyData sampleParseJSON chunkedStorage ''alice@aditi.example''
       = Some [aliceUpdate ''u0'' (instant 19990 8 0 0 0) ''to-do'']
   \<and> tryRecoverFromLocalStorage sampleParseInt sampleParseJSON chunkedStorage
        (Some ''alice@aditi.example'') (initialDashboard 20000)
       = (True, recovered [aliceUpdate ''u1'' (instant 19999 9 0 0 0) ''completed'',
                           aliceUpdate ''u2'' (instant 19999 10 0 0 0) ''blocked'']
                  (initialDashboard 20000))
   \<and> storedChunkCount sampleParseInt legacyOnlyStorage ''alice@aditi.example'' = None
   \<and> tryRecoverFromLocalStorage sampleParseInt sampleParseJSON legacyOnlyStorage
        (Some ''alice@aditi.example'') (initialDashboard 20000)
       = (True, recovered [aliceUpdate ''u0'' (instant 19990 8 0 0 0) ''to-do'']
                  (initialDashboard 20000))
   \<and> storedChunkCount sampleParseInt corruptStorage ''alice@aditi.example'' = Some 1
   \<and> \<not> list_all (chunkParses sampleParseJSON corruptStorage ''alice@aditi.example'') [0..<1]
   \<and> tryRecoverFromLocalStorage sampleParseInt sampleParseJSON corruptStorage
        (Some ''alice@aditi.example'') (initialDashboard 20000)
       = (False, initialDashboard 20000)"
proof -
  let ?m = "''alice@aditi.example''"
  let ?s = "initialDashboard 20000"
  have two: "[0..<2] = [0, Suc 0]" and one: "[0..<1] = [0]"
    by (simp_all add: upt_conv_Cons)
  have ok: "list_all (chunkParses sampleParseJSON chunkedStorage ?m) [0..<2]"
    by (simp add: two chunked_facts)
  have cat: "concat (map (chunkContents sampleParseJSON chunkedStorage ?m) [0..<2])
      = [aliceUpdate ''u1'' (instant 19999 9 0 0 0) ''completed'',
         aliceUpdate ''u2'' (instant 19999 10 0 0 0) ''blocked'']"
    by (simp add: two chunked_facts)
  have bad: "\<not> list_all (chunkParses sampleParseJSON corruptStorage ?m) [0..<1]"
    by (simp add: one corrupt_facts)
  from recovery_assembly [of sampleParseJSON chunkedStorage ?m "[]" sampleParseInt 2 ?s "[]"]
    chunked_facts(1) ok cat
  have a: "tryRecoverFromLocalStorage sampleParseInt sampleParseJSON chunkedStorage (Some ?m) ?s
       = (True, recovered [aliceUpdate ''u1'' (instant 19999 9 0 0 0) ''completed'',
                           aliceUpdate ''u2'' (instant 19999 10 0 0 0) ''blocked''] ?s)"
    by simp
  from recovery_assembly [of sampleParseJSON legacyOnlyStorage ?m "[]" sampleParseInt 0 ?s "[]"]
    legacy_facts
  have b: "tryRecoverFromLocalStorage sampleParseInt sampleParseJSON legacyOnlyStorage (Some ?m) ?s
       = (True, recovered [aliceUpdate ''u0'' (instant 19990 8 0 0 0) ''to-do''] ?s)"
    by simp
  from recovery_assembly [of sampleParseJSON corruptStorage ?m "[]" sampleParseInt 1 ?s "[]"]
    corrupt_facts(1) bad
  have c: "tryRecoverFromLocalStorage sampleParseInt sampleParseJSON corruptStorage (Some ?m) ?s
       = (False, ?s)"
    by simp
  from a b c ok bad show ?thesis
    by (simp add: chunked_facts(1,6) legacy_facts(1) corrupt_facts(1))
qed

text \<open>
  One chunk is announced and stored, but cut short; the legacy entry is intact. The
  recovery returns false and recovers nothing.
\<close>

theorem corrupt_chunk_blocks_legacy:
  "storedChunkCount sampleParseInt corruptStorage ''alice@aditi.example'' = Some 1
   \<and> corruptStorage (chunkKey 0 ''alice@aditi.example'') = Some ''[u1''
   \<and> sampleParseJSON ''[u1'' = None
   \<and> legacyData sampleParseJSON corruptStorage ''alice@aditi.example''
       = Some [aliceUpdate ''u0'' (instant 19990 8 0 0 0) ''to-do'']
   \<and> tryRecoverFromLocalStorage sampleParseInt sampleParseJSON corruptStorage
        (Some ''alice@aditi.example'') (initialDashboard 20000)
       = (False, initialDashboard 20000)"
proof -
  have "[0..<1] = [0]" by (simp add: upt_conv_Cons)
  then have "\<not> list_all (chunkParses sampleParseJSON corruptStorage ''alice@aditi.example'') [0..<1]"
    by (simp add: corrupt_facts)
  then have "tryRecoverFromLocalStorage sampleParseInt sampleParseJSON corruptStorage
        (Some ''alice@aditi.example'') (initialDashboard 20000) = (False, initialDashboard 20000)"
    using recover_corrupt [of "''alice@aditi.example''" sampleParseInt corruptStorage 1
        sampleParseJSON "initialDashboard 20000"] corrupt_facts(1)
    by simp
  moreover have "corruptStorage (chunkKey 0 ''alice@aditi.example'') = Some ''[u1''"
    by (simp add: corruptStorage_def chunkKey_def showNat_digit)
  moreover have "sampleParseJSON ''[u1'' = None"
    by (simp add: sampleParseJSON_def)
  ultimately show ?thesis by (simp add: corrupt_facts)
qed

end
